theory Spec2Isabelle
  imports Complex_Main
begin

unbundle bit_operations_syntax

section \<open>Tensors\<close>

text \<open>
  A tensor is its shape and its elements in row-major order, as the framework stores a
  contiguous tensor. Elements are exact reals or integers: rounding of 32-bit floats is
  not part of the model, and the only NaN it tracks is the mean of an empty tensor.
\<close>

datatype error = IndexError | ShapeError | RuntimeError | ZeroDivisionError
  | FileNotFoundError | EmptyDataError | NameError

datatype fl = NaN | Fin real

record 'a tensor =
  shape :: "nat list"
  data :: "'a list"

definition wf :: "'a tensor \<Rightarrow> bool" where
  "wf t \<longleftrightarrow> length (data t) = prod_list (shape t)"

text \<open>An elementwise operation on one tensor.\<close>

definition tmap :: "('a \<Rightarrow> 'b) \<Rightarrow> 'a tensor \<Rightarrow> 'b tensor" where
  "tmap f t = \<lparr>shape = shape t, data = map f (data t)\<rparr>"

text \<open>
  An elementwise operation on two tensors of one shape. Two different shapes are
  broadcast or refused by the framework; the model reports both as \<open>ShapeError\<close>.
\<close>

definition tzip :: "('a \<Rightarrow> 'b \<Rightarrow> 'c) \<Rightarrow> 'a tensor \<Rightarrow> 'b tensor \<Rightarrow> error + 'c tensor" where
  "tzip f a b =
     (if shape a = shape b then Inr \<lparr>shape = shape a, data = map2 f (data a) (data b)\<rparr>
      else Inl ShapeError)"

text \<open>
  \<^verbatim>\<open>t.sum((1, 2))\<close>: dimensions 1 and 2 are summed away, dimension 0 and every
  dimension from 3 on stay. For a tensor of shape \<open>n # a # b # rest\<close>, with \<open>R\<close> the
  product of \<open>rest\<close>, element \<open>(i, r)\<close> of the result is the sum over \<open>j < a\<close> and
  \<open>k < b\<close> of element \<open>(i, j, k, r)\<close>, which is stored at offset
  \<open>((i * a + j) * b + k) * R + r\<close>. A tensor of fewer than three dimensions has no
  dimension 2.
\<close>

definition cell_sum :: "int list \<Rightarrow> nat \<Rightarrow> nat \<Rightarrow> nat \<Rightarrow> nat \<Rightarrow> nat \<Rightarrow> int" where
  "cell_sum xs a b R i r = (\<Sum>j\<leftarrow>[0..<a]. \<Sum>k\<leftarrow>[0..<b]. xs ! (((i * a + j) * b + k) * R + r))"

definition sum12 :: "int tensor \<Rightarrow> error + int tensor" where
  "sum12 t =
     (case shape t of
        n # a # b # rest \<Rightarrow>
          (let R = prod_list rest in
           Inr \<lparr>shape = n # rest,
                data = concat (map (\<lambda>i. map (\<lambda>r. cell_sum (data t) a b R i r) [0..<R]) [0..<n])\<rparr>)
      | _ \<Rightarrow> Inl IndexError)"

definition mean :: "real tensor \<Rightarrow> fl" where
  "mean t = (if data t = [] then NaN else Fin (sum_list (data t) / real (length (data t))))"

section \<open>The IoU metric\<close>

definition sigmoid :: "real \<Rightarrow> real" where
  "sigmoid x = 1 / (1 + exp (- x))"

text \<open>\<^verbatim>\<open>(preds > 0.5).float()\<close>\<close>

definition gt_half :: "real \<Rightarrow> real" where
  "gt_half p = (if p > 1 / 2 then 1 else 0)"

text \<open>\<^verbatim>\<open>.int()\<close> truncates towards zero.\<close>

definition to_int :: "real \<Rightarrow> int" where
  "to_int x = (if 0 \<le> x then \<lfloor>x\<rfloor> else \<lceil>x\<rceil>)"

definition smooth :: real where
  "smooth = 1 / 1000000"

definition calculate_iou :: "real tensor \<Rightarrow> real tensor \<Rightarrow> error + fl" where
  "calculate_iou preds0 labels0 =
     (let preds1 = tmap sigmoid preds0;
          preds2 = tmap gt_half preds1;
          preds = tmap to_int preds2;
          labels = tmap to_int labels0
      in case tzip (AND) preds labels of Inl e \<Rightarrow> Inl e | Inr pl \<Rightarrow>
         (case sum12 pl of Inl e \<Rightarrow> Inl e | Inr intersection \<Rightarrow>
         (case tzip (OR) preds labels of Inl e \<Rightarrow> Inl e | Inr po \<Rightarrow>
         (case sum12 po of Inl e \<Rightarrow> Inl e | Inr union1 \<Rightarrow>
         (case tzip (\<lambda>i u. (real_of_int i + smooth) / (real_of_int u + smooth)) intersection union1 of
            Inl e \<Rightarrow> Inl e
          | Inr iou \<Rightarrow> Inr (mean iou))))))"

text \<open>The first three steps of \<open>calculate_iou\<close>, for one element.\<close>

definition binarize :: "real \<Rightarrow> int" where
  "binarize x = to_int (gt_half (sigmoid x))"

text \<open>The ratio of one entry of the intersection and the union tensor.\<close>

definition ratio :: "int \<Rightarrow> int \<Rightarrow> real" where
  "ratio i u = (real_of_int i + smooth) / (real_of_int u + smooth)"

subsection \<open>The metric as the specification words it\<close>

text \<open>
  Sample \<open>i\<close> of a batch: the elements of index \<open>i\<close> in dimension 0, all other
  dimensions flattened.
\<close>

definition sample :: "'a tensor \<Rightarrow> nat \<Rightarrow> 'a list" where
  "sample t i = (let S = prod_list (tl (shape t)) in take S (drop (i * S) (data t)))"

definition above_threshold :: "real \<Rightarrow> bool" where
  "above_threshold x \<longleftrightarrow> sigmoid x > 1 / 2"

text \<open>
  One sample's ratio: the count of pixels positive in both, plus the smoothing term, over
  the count of pixels positive in either, plus the smoothing term.
\<close>

definition sample_ratio :: "real list \<Rightarrow> real list \<Rightarrow> real" where
  "sample_ratio xs ys =
     (let ps = map above_threshold xs;
          ls = map (\<lambda>y. to_int y > 0) ys;
          inter = length (filter (\<lambda>(p, l). p \<and> l) (zip ps ls));
          uni = length (filter (\<lambda>(p, l). p \<or> l) (zip ps ls))
      in (real inter + smooth) / (real uni + smooth))"

definition iou_spec :: "real tensor \<Rightarrow> real tensor \<Rightarrow> fl" where
  "iou_spec preds labels =
     (case shape preds of
        [] \<Rightarrow> NaN
      | n # rest \<Rightarrow>
          if n = 0 then NaN
          else Fin (sum_list (map (\<lambda>i. sample_ratio (sample preds i) (sample labels i)) [0..<n]) / real n))"

section \<open>The U-Net, on tensor shapes\<close>



definition ebind :: "error + 'a \<Rightarrow> ('a \<Rightarrow> error + 'b) \<Rightarrow> error + 'b" where
  "ebind m f = (case m of Inl e \<Rightarrow> Inl e | Inr x \<Rightarrow> f x)"

















section \<open>The focal loss\<close>

text \<open>
  \<open>FocalLoss(alpha=0.25, gamma=2)\<close>: an argument that is not given takes its default.
  The exponent is a natural number, as the default is.
\<close>

record focal_loss =
  alpha :: real
  gamma :: nat

definition FocalLoss :: "real option \<Rightarrow> nat option \<Rightarrow> focal_loss" where
  "FocalLoss alpha0 gamma0 =
     \<lparr>alpha = (case alpha0 of None \<Rightarrow> 1 / 4 | Some a \<Rightarrow> a),
      gamma = (case gamma0 of None \<Rightarrow> 2 | Some g \<Rightarrow> g)\<rparr>"

text \<open>
  The framework's binary cross-entropy with logits, for one element, as it is documented:
  \<open>-(y * log (sigmoid x) + (1 - y) * log (1 - sigmoid x))\<close>.
\<close>

definition bce_with_logits :: "real \<Rightarrow> real \<Rightarrow> real" where
  "bce_with_logits x y = - (y * ln (sigmoid x) + (1 - y) * ln (1 - sigmoid x))"

text \<open>\<open>nn.BCEWithLogitsLoss(reduction='none')\<close>: it refuses a target of another size.\<close>

definition BCEWithLogitsLoss_none :: "real tensor \<Rightarrow> real tensor \<Rightarrow> error + real tensor" where
  "BCEWithLogitsLoss_none inputs targets = tzip bce_with_logits inputs targets"

text \<open>\<open>nn.BCEWithLogitsLoss()\<close>, with the default reduction to the mean.\<close>

definition BCEWithLogitsLoss_mean :: "real tensor \<Rightarrow> real tensor \<Rightarrow> error + fl" where
  "BCEWithLogitsLoss_mean inputs targets =
     ebind (BCEWithLogitsLoss_none inputs targets) (\<lambda>l. Inr (mean l))"

definition focal_forward :: "focal_loss \<Rightarrow> real tensor \<Rightarrow> real tensor \<Rightarrow> error + fl" where
  "focal_forward self inputs targets =
     ebind (BCEWithLogitsLoss_none inputs targets) (\<lambda>BCE_loss.
       let pt = tmap exp (tmap uminus BCE_loss);
           one_minus_pt = tmap (\<lambda>p. 1 - p) pt;
           modulating = tmap (\<lambda>q. q ^ gamma self) one_minus_pt;
           weighted = tmap (\<lambda>q. alpha self * q) modulating
       in ebind (tzip (*) weighted BCE_loss) (\<lambda>F_loss. Inr (mean F_loss)))"

definition criterion :: focal_loss where
  "criterion = FocalLoss None None"

subsection \<open>The focal loss as the specification words it\<close>

definition focal_term :: "real \<Rightarrow> nat \<Rightarrow> real \<Rightarrow> real \<Rightarrow> real" where
  "focal_term a g x y =
     a * (1 - exp (- bce_with_logits x y)) ^ g * bce_with_logits x y"

definition focal_spec :: "real \<Rightarrow> nat \<Rightarrow> real tensor \<Rightarrow> real tensor \<Rightarrow> fl" where
  "focal_spec a g inputs targets =
     (let terms = map2 (focal_term a g) (data inputs) (data targets)
      in if terms = [] then NaN else Fin (sum_list terms / real (length terms)))"

section \<open>The dataset\<close>

text \<open>
  The transforms the notebook constructs. What a transform does to an image is the
  library's: the environment gives the effect of the deterministic ones as a function
  of the image, and the effect of the random ones as a function of the image and the
  state of the random generator.
\<close>

datatype transform =
    RandomHorizontalFlip real
  | RandomVerticalFlip real
  | ColorJitter real real real real
  | RandomRotation real
  | Resize nat nat
  | ToTensor
  | Normalize "real list" "real list"
  | Compose "transform list"

text \<open>
  What the code reads from outside: the CSV files as their records of fields (the header
  record first), the image files, the conversion of an image to a mode, and the effect
  of the library's transforms.
\<close>

record ('obj, 'rng) env =
  csv_files :: "string \<Rightarrow> string list list option"
  image_files :: "string \<Rightarrow> 'obj option"
  convert :: "string \<Rightarrow> 'obj \<Rightarrow> 'obj"
  deterministic_op :: "transform \<Rightarrow> 'obj \<Rightarrow> 'obj"
  random_op :: "transform \<Rightarrow> 'rng \<Rightarrow> 'obj \<Rightarrow> 'obj \<times> 'rng"

fun is_random :: "transform \<Rightarrow> bool" where
  "is_random (RandomHorizontalFlip p) = True"
| "is_random (RandomVerticalFlip p) = True"
| "is_random (ColorJitter b c s h) = True"
| "is_random (RandomRotation d) = True"
| "is_random (Resize h w) = False"
| "is_random ToTensor = False"
| "is_random (Normalize m s) = False"
| "is_random (Compose ts) = list_ex is_random ts"

fun apply_transform :: "('obj, 'rng) env \<Rightarrow> transform \<Rightarrow> 'obj \<times> 'rng \<Rightarrow> 'obj \<times> 'rng" where
  "apply_transform e (Compose ts) s = fold (apply_transform e) ts s"
| "apply_transform e (Resize h w) (x, g) = (deterministic_op e (Resize h w) x, g)"
| "apply_transform e ToTensor (x, g) = (deterministic_op e ToTensor x, g)"
| "apply_transform e (Normalize m s) (x, g) = (deterministic_op e (Normalize m s) x, g)"
| "apply_transform e t (x, g) = random_op e t g x"

definition data_augmentation :: transform where
  "data_augmentation = Compose
     [RandomHorizontalFlip (1 / 2),
      RandomVerticalFlip (1 / 2),
      ColorJitter (2 / 10) (2 / 10) (2 / 10) (1 / 10),
      RandomHorizontalFlip (1 / 2),
      RandomVerticalFlip (1 / 2),
      RandomRotation 10,
      ColorJitter (2 / 10) (2 / 10) (2 / 10) (1 / 10)]"

definition image_transform_pipeline :: transform where
  "image_transform_pipeline = Compose
     [Resize 256 256,
      ToTensor,
      Normalize [485 / 1000, 456 / 1000, 406 / 1000] [229 / 1000, 224 / 1000, 225 / 1000]]"

definition mask_transform_pipeline :: transform where
  "mask_transform_pipeline = Compose [Resize 256 256, ToTensor]"

record dataset =
  img_labels :: "string list list"
  img_dir :: string
  mask_dir :: string
  image_transform :: "transform option"
  mask_transform :: "transform option"

text \<open>
  \<open>pd.read_csv\<close>: the first record is the header, the others are the rows of the frame.
  Every field is kept as the string the file holds.
\<close>

definition read_csv :: "('obj, 'rng) env \<Rightarrow> string \<Rightarrow> error + string list list" where
  "read_csv e csv_file =
     (case csv_files e csv_file of
        None \<Rightarrow> Inl FileNotFoundError
      | Some [] \<Rightarrow> Inl EmptyDataError
      | Some (header # rows) \<Rightarrow> Inr rows)"

definition FloodDataset ::
  "('obj, 'rng) env \<Rightarrow> string \<Rightarrow> string \<Rightarrow> string \<Rightarrow> transform option \<Rightarrow> transform option
     \<Rightarrow> error + dataset" where
  "FloodDataset e csv_file img_dir0 mask_dir0 image_transform0 mask_transform0 =
     ebind (read_csv e csv_file) (\<lambda>rows.
       Inr \<lparr>img_labels = rows, img_dir = img_dir0, mask_dir = mask_dir0,
            image_transform = image_transform0, mask_transform = mask_transform0\<rparr>)"


text \<open>\<open>frame.iloc[idx, col]\<close>: a negative row index counts from the end.\<close>

definition iloc :: "string list list \<Rightarrow> int \<Rightarrow> nat \<Rightarrow> error + string" where
  "iloc rows idx col =
     (let n = int (length rows); j = (if idx < 0 then n + idx else idx)
      in if 0 \<le> j \<and> j < n
         then (let row = rows ! nat j in if col < length row then Inr (row ! col) else Inl IndexError)
         else Inl IndexError)"

text \<open>\<open>os.path.join\<close> of two components, for POSIX paths.\<close>

definition os_path_join :: "string \<Rightarrow> string \<Rightarrow> string" where
  "os_path_join a b =
     (if b \<noteq> [] \<and> hd b = CHR ''/'' then b
      else if a = [] \<or> last a = CHR ''/'' then a @ b
      else a @ ''/'' @ b)"

text \<open>\<open>Image.open(name).convert(mode)\<close>\<close>

definition open_convert :: "('obj, 'rng) env \<Rightarrow> string \<Rightarrow> string \<Rightarrow> error + 'obj" where
  "open_convert e name mode =
     (case image_files e name of None \<Rightarrow> Inl FileNotFoundError | Some img \<Rightarrow> Inr (convert e mode img))"

text \<open>\<open>if transform: x = transform(x)\<close>: a transform that is \<open>None\<close> is skipped.\<close>

definition apply_optional ::
  "('obj, 'rng) env \<Rightarrow> transform option \<Rightarrow> 'obj \<times> 'rng \<Rightarrow> 'obj \<times> 'rng" where
  "apply_optional e t s = (case t of None \<Rightarrow> s | Some f \<Rightarrow> apply_transform e f s)"

text \<open>
  \<open>__getitem__\<close>, with the state of the random generator passed in and returned.
\<close>

definition getitem ::
  "('obj, 'rng) env \<Rightarrow> dataset \<Rightarrow> int \<Rightarrow> 'rng \<Rightarrow> error + ('obj \<times> 'obj) \<times> 'rng" where
  "getitem e self idx g =
     ebind (iloc (img_labels self) idx 0) (\<lambda>c0.
     let img_name = os_path_join (img_dir self) c0 in
     ebind (iloc (img_labels self) idx 1) (\<lambda>c1.
     let mask_name = os_path_join (mask_dir self) c1 in
     ebind (open_convert e img_name ''RGB'') (\<lambda>image0.
     ebind (open_convert e mask_name ''L'') (\<lambda>mask0.
     let (image, g1) = apply_optional e (image_transform self) (image0, g);
         (mask, g2) = apply_optional e (mask_transform self) (mask0, g1)
     in Inr ((image, mask), g2)))))"

definition train_dataset :: "('obj, 'rng) env \<Rightarrow> error + dataset" where
  "train_dataset e = FloodDataset e
     ''/content/drive/MyDrive/DLCV Project/Flood-Detection-Project/train-metadata.csv''
     ''/content/drive/MyDrive/DLCV Project/Flood-Detection-Project/Image/Train-images''
     ''/content/drive/MyDrive/DLCV Project/Flood-Detection-Project/Mask/Train-Masks''
     (Some image_transform_pipeline) (Some mask_transform_pipeline)"

definition test_dataset :: "('obj, 'rng) env \<Rightarrow> error + dataset" where
  "test_dataset e = FloodDataset e
     ''/content/drive/MyDrive/DLCV Project/Flood-Detection-Project/test-metadata.csv''
     ''/content/drive/MyDrive/DLCV Project/Flood-Detection-Project/Image/Test-images''
     ''/content/drive/MyDrive/DLCV Project/Flood-Detection-Project/Mask/Test-Masks''
     (Some image_transform_pipeline) (Some mask_transform_pipeline)"

section \<open>Training and evaluation\<close>

text \<open>
  The framework's mutable state (the parameters of the network, their gradients, the
  moments of the optimizer) is one value of an abstract type, and the four operations the
  loops call are functions on it. A loader is the list of its batches, each a pair of
  images and masks; \<open>.to(device)\<close> keeps the value of a tensor.
\<close>

record mode =
  training :: bool
  grad_enabled :: bool

record ('p, 'img) torch =
  zero_grad :: "'p \<Rightarrow> 'p"
  model_forward :: "'p \<Rightarrow> mode \<Rightarrow> 'img \<Rightarrow> real tensor"
  loss_backward :: "'p \<Rightarrow> 'img \<Rightarrow> real tensor \<Rightarrow> 'p"
  optimizer_step :: "'p \<Rightarrow> 'p"

text \<open>
  The operations the script performs, in order; a forward pass is recorded with its batch
  of images and with whether the model was in train mode.
\<close>

datatype 'img event =
    ModelTrain
  | ZeroGrad
  | Forward 'img bool
  | Criterion
  | Backward
  | OptimizerStep
  | Print nat

text \<open>
  The state of the script: the framework's state, the mode of the model, the variable
  \<open>loss\<close> (unbound until the first batch), and the operations performed so far.
\<close>

record ('p, 'img) script =
  store :: 'p
  model_mode :: mode
  loss :: "fl option"
  events :: "'img event list"

definition num_epochs :: nat where
  "num_epochs = 10"

definition train_batch ::
  "('p, 'img) torch \<Rightarrow> 'img \<times> real tensor \<Rightarrow> ('p, 'img) script \<Rightarrow> error + ('p, 'img) script" where
  "train_batch T b s =
     (case b of (images, masks) \<Rightarrow>
        let s1 = s\<lparr>store := zero_grad T (store s), events := events s @ [ZeroGrad]\<rparr>;
            outputs = model_forward T (store s1) (model_mode s1) images;
            s2 = s1\<lparr>events := events s1 @ [Forward images (training (model_mode s1))]\<rparr>
        in ebind (focal_forward criterion outputs masks) (\<lambda>l.
             let s3 = s2\<lparr>loss := Some l, events := events s2 @ [Criterion]\<rparr>;
                 s4 = s3\<lparr>store := loss_backward T (store s3) images masks,
                         events := events s3 @ [Backward]\<rparr>;
                 s5 = s4\<lparr>store := optimizer_step T (store s4),
                         events := events s4 @ [OptimizerStep]\<rparr>
             in Inr s5))"

fun train_batches ::
  "('p, 'img) torch \<Rightarrow> ('img \<times> real tensor) list \<Rightarrow> ('p, 'img) script \<Rightarrow> error + ('p, 'img) script" where
  "train_batches T [] s = Inr s"
| "train_batches T (b # bs) s = ebind (train_batch T b s) (train_batches T bs)"

text \<open>
  One epoch. \<open>train_loader\<close> shuffles, so the batches of an epoch are a function of the
  epoch. The \<open>print\<close> after the batches reads \<open>loss\<close>.
\<close>

definition train_epoch ::
  "('p, 'img) torch \<Rightarrow> (nat \<Rightarrow> ('img \<times> real tensor) list) \<Rightarrow> nat \<Rightarrow> ('p, 'img) script
     \<Rightarrow> error + ('p, 'img) script" where
  "train_epoch T train_loader epoch s =
     (let s0 = s\<lparr>model_mode := (model_mode s)\<lparr>training := True\<rparr>, events := events s @ [ModelTrain]\<rparr>
      in ebind (train_batches T (train_loader epoch) s0) (\<lambda>s1.
           case loss s1 of
             None \<Rightarrow> Inl NameError
           | Some l \<Rightarrow> Inr (s1\<lparr>events := events s1 @ [Print (epoch + 1)]\<rparr>)))"

fun train_epochs ::
  "('p, 'img) torch \<Rightarrow> (nat \<Rightarrow> ('img \<times> real tensor) list) \<Rightarrow> nat list \<Rightarrow> ('p, 'img) script
     \<Rightarrow> error + ('p, 'img) script" where
  "train_epochs T train_loader [] s = Inr s"
| "train_epochs T train_loader (epoch # es) s =
     ebind (train_epoch T train_loader epoch s) (train_epochs T train_loader es)"

definition train ::
  "('p, 'img) torch \<Rightarrow> (nat \<Rightarrow> ('img \<times> real tensor) list) \<Rightarrow> ('p, 'img) script
     \<Rightarrow> error + ('p, 'img) script" where
  "train T train_loader s = train_epochs T train_loader [0..<num_epochs] s"


subsection \<open>The order of training as the specification words it\<close>



subsection \<open>The test loop\<close>





subsection \<open>The reported metric as the specification words it\<close>












section \<open>Properties of the IoU metric\<close>

lemma sigmoid_gt_half: "sigmoid x > 1 / 2 \<longleftrightarrow> 0 < x"
proof -
  have "sigmoid x > 1 / 2 \<longleftrightarrow> 1 + exp (- x) < 2"
    unfolding sigmoid_def by (simp add: field_simps add_pos_pos)
  also have "\<dots> \<longleftrightarrow> exp (- x) < exp 0" by simp
  also have "\<dots> \<longleftrightarrow> 0 < x" by (simp only: exp_less_cancel_iff) simp
  finally show ?thesis .
qed

lemma above_threshold_iff: "above_threshold x \<longleftrightarrow> 0 < x"
  by (simp only: above_threshold_def sigmoid_gt_half)

lemma gt_half_sigmoid: "gt_half (sigmoid x) = (if 0 < x then 1 else 0)"
  by (simp only: gt_half_def sigmoid_gt_half)

text \<open>
  C1. The evaluation loop passes \<^verbatim>\<open>calculate_iou\<close> batches of shape \<open>(N, 1, H, W)\<close>.
  On such a batch \<^verbatim>\<open>sum((1, 2))\<close> sums the channel and the height, so the function
  averages one ratio per image column, not one ratio per sample. For the batch of one
  1 x 2 image with logits \<open>1, -1\<close> and an all-zero mask, the per-sample ratio of
  the specification is \<open>1e-6 / (1 + 1e-6)\<close>, and the function returns about one half.
\<close>

theorem calculate_iou_4d_per_column:
  "calculate_iou \<lparr>shape = [1, 1, 1, 2], data = [1, - 1]\<rparr> \<lparr>shape = [1, 1, 1, 2], data = [0, 0]\<rparr>
     = Inr (Fin (500001 / 1000001))
   \<and> iou_spec \<lparr>shape = [1, 1, 1, 2], data = [1, - 1]\<rparr> \<lparr>shape = [1, 1, 1, 2], data = [0, 0]\<rparr>
     = Fin (1 / 1000001)"
proof
  show "calculate_iou \<lparr>shape = [1, 1, 1, 2], data = [1, - 1]\<rparr> \<lparr>shape = [1, 1, 1, 2], data = [0, 0]\<rparr>
     = Inr (Fin (500001 / 1000001))"
    by (simp add: calculate_iou_def tmap_def tzip_def sum12_def cell_sum_def ratio_def mean_def
        gt_half_sigmoid to_int_def smooth_def Let_def upt_conv_Cons)
  show "iou_spec \<lparr>shape = [1, 1, 1, 2], data = [1, - 1]\<rparr> \<lparr>shape = [1, 1, 1, 2], data = [0, 0]\<rparr>
     = Fin (1 / 1000001)"
    by (simp add: iou_spec_def sample_def sample_ratio_def above_threshold_iff to_int_def
        smooth_def Let_def upt_conv_Cons)
qed


section \<open>The range of the IoU metric\<close>

lemma map2_same_index:
  "map2 f (map g xs) (map h xs) = map (\<lambda>x. f (g x) (h x)) xs"
  by (induction xs) simp_all

lemma map2_concat_map:
  "map2 f (concat (map (\<lambda>i. map (g i) rs) js)) (concat (map (\<lambda>i. map (h i) rs) js))
     = concat (map (\<lambda>i. map (\<lambda>r. f (g i r) (h i r)) rs) js)"
  by (induction js) (simp_all add: map2_same_index)

lemma calculate_iou_closed:
  assumes "shape preds = n # a # b # rest" "shape labels = shape preds"
  shows "calculate_iou preds labels =
     Inr (mean \<lparr>shape = n # rest,
       data = concat (map (\<lambda>i. map (\<lambda>r.
           ratio (cell_sum (map2 (AND) (map binarize (data preds)) (map to_int (data labels)))
                    a b (prod_list rest) i r)
                 (cell_sum (map2 (OR) (map binarize (data preds)) (map to_int (data labels)))
                    a b (prod_list rest) i r))
         [0..<prod_list rest]) [0..<n])\<rparr>)"
proof -
  have r: "(\<lambda>i u. (real_of_int i + smooth) / (real_of_int u + smooth)) = ratio"
    by (simp add: ratio_def fun_eq_iff)
  have b: "map to_int (map gt_half (map sigmoid xs)) = map binarize xs" for xs
    by (simp add: binarize_def)
  show ?thesis
    using assms
    by (simp add: calculate_iou_def tmap_def tzip_def sum12_def Let_def r b map2_concat_map
        del: map_map)
qed

lemma binarize_eq: "binarize x = (if 0 < x then 1 else 0)"
  by (simp add: binarize_def gt_half_sigmoid to_int_def)













section \<open>The metric on batches of shape (N, H, W)\<close>

lemma sum_list_rows:
  fixes g :: "nat \<Rightarrow> int"
  shows "(\<Sum>j\<leftarrow>[0..<a]. \<Sum>k\<leftarrow>[0..<b]. g (j * b + k)) = (\<Sum>m\<leftarrow>[0..<a * b]. g m)"
proof (induction a)
  case 0
  show ?case by simp
next
  case (Suc a)
  have "[0..<a * b + b] = [0..<a * b] @ [a * b..<a * b + b]"
    by (rule upt_add_eq_append) simp
  then have "[0..<Suc a * b] = [0..<a * b] @ [a * b..<a * b + b]"
    by (simp add: add.commute)
  moreover have "map g [a * b..<a * b + b] = map (\<lambda>k. g (a * b + k)) [0..<b]"
  proof -
    have "[a * b..<b + a * b] = map (\<lambda>i. i + a * b) [0..<b]"
      by (rule map_add_upt [symmetric])
    then have "[a * b..<a * b + b] = map (\<lambda>i. i + a * b) [0..<b]"
      by (simp only: add.commute [of "a * b" b])
    then show ?thesis
      by (simp add: comp_def add.commute)
  qed
  ultimately have "(\<Sum>m\<leftarrow>[0..<Suc a * b]. g m)
      = (\<Sum>m\<leftarrow>[0..<a * b]. g m) + (\<Sum>k\<leftarrow>[0..<b]. g (a * b + k))"
    by simp
  then show ?case using Suc.IH by simp
qed

lemma length_filter_sum:
  "int (length (filter Q zs)) = (\<Sum>m\<leftarrow>[0..<length zs]. if Q (zs ! m) then 1 else 0)"
proof -
  have "int (length (filter Q zs)) = (\<Sum>z\<leftarrow>zs. if Q z then 1 else 0)"
    by (induction zs) simp_all
  also have "\<dots> = (\<Sum>z\<leftarrow>map (nth zs) [0..<length zs]. if Q z then 1 else 0)"
    by (simp only: map_nth)
  also have "\<dots> = (\<Sum>m\<leftarrow>[0..<length zs]. if Q (zs ! m) then 1 else 0)"
    by (simp add: comp_def)
  finally show ?thesis .
qed

text \<open>
  On a batch of shape \<open>(N, H, W)\<close> with labels that are 0 or 1 after the cast,
  \<open>sum((1, 2))\<close> sums each sample whole, and \<open>calculate_iou\<close> is the mean over the
  batch of the per-sample ratio the specification describes.
\<close>

lemma calculate_iou_3d:
  assumes "wf preds" "wf labels" "shape preds = [n, a, b]" "shape labels = shape preds"
    and "\<forall>y\<in>set (data labels). to_int y = 0 \<or> to_int y = 1"
  shows "calculate_iou preds labels = Inr (iou_spec preds labels)"
proof -
  define S where "S = a * b"
  define P where "P = map binarize (data preds)"
  define L where "L = map to_int (data labels)"
  define A where "A = map2 (AND) P L"
  define U where "U = map2 (OR) P L"
  have len: "length (data preds) = n * S" "length (data labels) = n * S"
    using assms(1-4) by (simp_all add: wf_def S_def)
  have tl: "prod_list (tl (shape preds)) = S" "prod_list (tl (shape labels)) = S"
    using assms(3,4) by (simp_all add: S_def)
  have key: "ratio (cell_sum A a b 1 i 0) (cell_sum U a b 1 i 0)
      = sample_ratio (sample preds i) (sample labels i)" if i: "i < n" for i
  proof -
    let ?ps = "map above_threshold (sample preds i)"
    let ?ls = "map (\<lambda>y. to_int y > 0) (sample labels i)"
    let ?zs = "zip ?ps ?ls"
    have "i * S + S \<le> n * S"
      using i by (metis Suc_leI mult_Suc mult_le_mono1 add.commute)
    then have lz: "length ?zs = S"
      using len by (simp add: sample_def tl Let_def)
    have inb: "i * S + m < n * S" if "m < S" for m
      using that \<open>i * S + S \<le> n * S\<close> by simp
    have zs: "?zs ! m = (above_threshold (data preds ! (i * S + m)), 0 < to_int (data labels ! (i * S + m)))"
      if "m < S" for m
    proof -
      have "i * S \<le> length (data preds)" "i * S \<le> length (data labels)"
        using i len by simp_all
      then show ?thesis
        using that lz by (simp add: sample_def tl Let_def)
    qed
    have l01: "to_int (data labels ! q) = 0 \<or> to_int (data labels ! q) = 1" if "q < n * S" for q
      using assms(5) that len(2) by (auto dest: nth_mem)
    have Aq: "A ! (i * S + m) = (if above_threshold (data preds ! (i * S + m))
        \<and> 0 < to_int (data labels ! (i * S + m)) then 1 else 0)"
      and Uq: "U ! (i * S + m) = (if above_threshold (data preds ! (i * S + m))
        \<or> 0 < to_int (data labels ! (i * S + m)) then 1 else 0)"
      if "m < S" for m
      using inb [OF that] l01 [OF inb [OF that]] len
      by (auto simp: A_def U_def P_def L_def binarize_eq above_threshold_iff)
    have off: "((i * a + j) * b + k) * 1 + 0 = i * S + (j * b + k)" for j k
      by (simp add: S_def algebra_simps)
    have "cell_sum A a b 1 i 0 = (\<Sum>j\<leftarrow>[0..<a]. \<Sum>k\<leftarrow>[0..<b]. A ! (i * S + (j * b + k)))"
      unfolding cell_sum_def off ..
    also have "\<dots> = (\<Sum>m\<leftarrow>[0..<S]. A ! (i * S + m))"
      unfolding S_def by (rule sum_list_rows)
    also have "\<dots> = (\<Sum>m\<leftarrow>[0..<length ?zs]. if (\<lambda>(p, l). p \<and> l) (?zs ! m) then 1 else 0)"
      unfolding lz by (intro arg_cong [where f = sum_list] map_cong refl) (simp add: Aq zs)
    also have "\<dots> = int (length (filter (\<lambda>(p, l). p \<and> l) ?zs))"
      by (rule length_filter_sum [symmetric])
    finally have cA: "cell_sum A a b 1 i 0 = int (length (filter (\<lambda>(p, l). p \<and> l) ?zs))" .
    have "cell_sum U a b 1 i 0 = (\<Sum>j\<leftarrow>[0..<a]. \<Sum>k\<leftarrow>[0..<b]. U ! (i * S + (j * b + k)))"
      unfolding cell_sum_def off ..
    also have "\<dots> = (\<Sum>m\<leftarrow>[0..<S]. U ! (i * S + m))"
      unfolding S_def by (rule sum_list_rows)
    also have "\<dots> = (\<Sum>m\<leftarrow>[0..<length ?zs]. if (\<lambda>(p, l). p \<or> l) (?zs ! m) then 1 else 0)"
      unfolding lz by (intro arg_cong [where f = sum_list] map_cong refl) (simp add: Uq zs)
    also have "\<dots> = int (length (filter (\<lambda>(p, l). p \<or> l) ?zs))"
      by (rule length_filter_sum [symmetric])
    finally have cU: "cell_sum U a b 1 i 0 = int (length (filter (\<lambda>(p, l). p \<or> l) ?zs))" .
    show ?thesis
      unfolding cA cU by (simp add: ratio_def sample_ratio_def Let_def)
  qed
  have "calculate_iou preds labels =
     Inr (mean \<lparr>shape = n # [],
       data = concat (map (\<lambda>i. map (\<lambda>r. ratio (cell_sum A a b (prod_list []) i r)
           (cell_sum U a b (prod_list []) i r)) [0..<prod_list []]) [0..<n])\<rparr>)"
    unfolding A_def U_def P_def L_def
    by (rule calculate_iou_closed) (simp_all add: assms(3,4))
  also have "concat (map (\<lambda>i. map (\<lambda>r. ratio (cell_sum A a b (prod_list []) i r)
           (cell_sum U a b (prod_list []) i r)) [0..<prod_list []]) [0..<n])
      = map (\<lambda>i. ratio (cell_sum A a b 1 i 0) (cell_sum U a b 1 i 0)) [0..<n]"
    by (simp add: concat_map_singleton)
  also have "\<dots> = map (\<lambda>i. sample_ratio (sample preds i) (sample labels i)) [0..<n]"
    by (rule map_cong) (simp_all add: key del: One_nat_def)
  finally show ?thesis
    by (simp add: iou_spec_def assms(3) mean_def)
qed


section \<open>Shapes through the U-Net\<close>

















section \<open>Properties of the focal loss\<close>

lemma map2_self_right: "map2 f (map2 g xs ys) (map2 h xs ys) = map2 (\<lambda>x y. f (g x y) (h x y)) xs ys"
  by (induction xs arbitrary: ys) (auto split: list.splits simp: zip_Cons1)

lemma focal_forward_eq:
  assumes "shape inputs = shape targets"
  shows "focal_forward self inputs targets = Inr (focal_spec (alpha self) (gamma self) inputs targets)"
proof -
  have "map2 (*) (map (\<lambda>b. alpha self * (1 - exp (- b)) ^ gamma self)
            (map2 bce_with_logits (data inputs) (data targets)))
          (map2 bce_with_logits (data inputs) (data targets))
      = map2 (focal_term (alpha self) (gamma self)) (data inputs) (data targets)"
    (is "map2 (*) (map ?w ?B) ?B = ?T")
  proof -
    have "map ?w ?B = map2 (\<lambda>x y. ?w (bce_with_logits x y)) (data inputs) (data targets)"
      by (simp add: case_prod_unfold)
    then have "map2 (*) (map ?w ?B) ?B =
        map2 (\<lambda>x y. ?w (bce_with_logits x y) * bce_with_logits x y) (data inputs) (data targets)"
      by (simp only: map2_self_right)
    also have "\<dots> = ?T"
      by (simp add: focal_term_def)
    finally show ?thesis .
  qed
  then show ?thesis
    using assms
    by (simp add: focal_forward_def BCEWithLogitsLoss_none_def tzip_def tmap_def ebind_def
        focal_spec_def mean_def Let_def comp_def)
qed

lemma focal_forward_shape_error:
  "shape inputs \<noteq> shape targets \<Longrightarrow> focal_forward self inputs targets = Inl ShapeError"
  by (simp add: focal_forward_def BCEWithLogitsLoss_none_def tzip_def ebind_def)

lemma train_batch_loss:
  assumes "train_batch T b s = Inr s'"
  shows "loss s' = Some (focal_spec (1 / 4) 2
      (model_forward T (zero_grad T (store s)) (model_mode s) (fst b)) (snd b))"
proof -
  obtain images masks where b: "b = (images, masks)" by (cases b)
  let ?out = "model_forward T (zero_grad T (store s)) (model_mode s) images"
  have sh: "shape ?out = shape masks"
  proof (rule ccontr)
    assume "shape ?out \<noteq> shape masks"
    then have "focal_forward criterion ?out masks = Inl ShapeError"
      by (rule focal_forward_shape_error)
    then have "train_batch T b s = Inl ShapeError"
      by (simp add: train_batch_def b Let_def ebind_def)
    with assms show False by simp
  qed
  have "focal_forward criterion ?out masks
      = Inr (focal_spec (alpha criterion) (gamma criterion) ?out masks)"
    using sh by (rule focal_forward_eq)
  then have "focal_forward criterion ?out masks = Inr (focal_spec (1 / 4) 2 ?out masks)"
    by (simp add: criterion_def FocalLoss_def)
  then show ?thesis
    using assms by (auto simp: train_batch_def b Let_def ebind_def)
qed

text \<open>
  C2. For logits and targets of one shape, \<open>forward\<close> returns the mean over all elements
  of \<open>alpha * (1 - exp (- BCE)) ^ gamma * BCE\<close>, with \<open>BCE\<close> the elementwise binary
  cross-entropy with logits; the criterion is the instance with the defaults
  \<open>alpha = 0.25\<close> and \<open>gamma = 2\<close>, and the loss of every training step is its value on
  the output of the network and the masks.
\<close>

theorem focal_forward_is_spec:
  assumes "shape inputs = shape targets"
  shows "focal_forward self inputs targets
       = Inr (focal_spec (alpha self) (gamma self) inputs targets)
     \<and> focal_forward criterion inputs targets = Inr (focal_spec (1 / 4) 2 inputs targets)
     \<and> criterion = \<lparr>alpha = 1 / 4, gamma = 2\<rparr>
     \<and> (\<forall>T b s s'. train_batch T b s = Inr s' \<longrightarrow>
          loss s' = Some (focal_spec (1 / 4) 2
            (model_forward T (zero_grad T (store s)) (model_mode s) (fst b)) (snd b)))"
proof -
  have tb: "\<forall>T b s s'. train_batch T b s = Inr s' \<longrightarrow>
          loss s' = Some (focal_spec (1 / 4) 2
            (model_forward T (zero_grad T (store s)) (model_mode s) (fst b)) (snd b))"
    using train_batch_loss by blast
  have c: "criterion = \<lparr>alpha = 1 / 4, gamma = 2\<rparr>"
    by (simp add: criterion_def FocalLoss_def)
  have "focal_forward criterion inputs targets
      = Inr (focal_spec (alpha criterion) (gamma criterion) inputs targets)"
    using assms by (rule focal_forward_eq)
  then have "focal_forward criterion inputs targets = Inr (focal_spec (1 / 4) 2 inputs targets)"
    by (simp add: c)
  with c focal_forward_eq [OF assms, of self] tb show ?thesis by simp
qed

theorem focal_forward_is_spec_witness:
  "shape \<lparr>shape = [1, 1, 1, 2], data = [0, 0 :: real]\<rparr>
     = shape \<lparr>shape = [1, 1, 1, 2], data = [1, 0 :: real]\<rparr>
   \<and> focal_forward criterion \<lparr>shape = [1, 1, 1, 2], data = [0, 0]\<rparr>
        \<lparr>shape = [1, 1, 1, 2], data = [1, 0]\<rparr>
     = Inr (Fin (ln 2 / 16))"
proof -
  have s: "sigmoid 0 = 1 / 2" by (simp add: sigmoid_def)
  have l: "ln (1 / 2 :: real) = - ln 2" by (simp add: ln_div)
  have e: "exp (- ln (2::real)) = 1 / 2" by (simp add: exp_minus)
  have b: "bce_with_logits 0 1 = ln 2" "bce_with_logits 0 0 = ln 2"
    by (simp_all add: bce_with_logits_def s l)
  have "focal_spec (1 / 4) 2 \<lparr>shape = [1, 1, 1, 2], data = [0, 0]\<rparr>
        \<lparr>shape = [1, 1, 1, 2], data = [1, 0]\<rparr> = Fin (ln 2 / 16)"
    by (simp add: focal_spec_def focal_term_def b e power2_eq_square)
  moreover have "focal_forward criterion \<lparr>shape = [1, 1, 1, 2], data = [0, 0]\<rparr>
        \<lparr>shape = [1, 1, 1, 2], data = [1, 0]\<rparr>
      = Inr (focal_spec (1 / 4) 2 \<lparr>shape = [1, 1, 1, 2], data = [0, 0]\<rparr>
        \<lparr>shape = [1, 1, 1, 2], data = [1, 0]\<rparr>)"
  proof -
    have sh: "shape \<lparr>shape = [1, 1, 1, 2], data = [0, 0 :: real]\<rparr>
        = shape \<lparr>shape = [1, 1, 1, 2], data = [1, 0 :: real]\<rparr>"
      by simp
    from focal_forward_is_spec [OF sh] show ?thesis by blast
  qed
  ultimately show ?thesis
    by simp
qed

lemma sigmoid_pos: "0 < sigmoid x"
  by (simp add: sigmoid_def add_pos_pos)

lemma sigmoid_less_one: "sigmoid x < 1"
  by (simp add: sigmoid_def add_pos_pos)

lemma bce_nonneg:
  assumes "0 \<le> y" "y \<le> 1"
  shows "0 \<le> bce_with_logits x y"
proof -
  have "ln (sigmoid x) \<le> 0"
    using sigmoid_pos [of x] sigmoid_less_one [of x] by simp
  then have a: "y * ln (sigmoid x) \<le> 0"
    using assms(1) by (simp add: mult_nonneg_nonpos)
  have "ln (1 - sigmoid x) \<le> 0"
    using sigmoid_pos [of x] sigmoid_less_one [of x] by simp
  then have b: "(1 - y) * ln (1 - sigmoid x) \<le> 0"
    using assms(2) by (simp add: mult_nonneg_nonpos)
  from a b show ?thesis
    unfolding bce_with_logits_def by linarith
qed

lemma modulating_bounds:
  assumes "0 \<le> (b::real)"
  shows "0 \<le> (1 - exp (- b)) ^ g" "(1 - exp (- b)) ^ g \<le> 1"
proof -
  have "exp (- b) \<le> 1" using assms by simp
  moreover have "0 < exp (- b)" by simp
  ultimately have r: "0 \<le> 1 - exp (- b)" "1 - exp (- b) \<le> 1" by linarith+
  from r show "0 \<le> (1 - exp (- b)) ^ g" by simp
  from r show "(1 - exp (- b)) ^ g \<le> 1" by (rule power_le_one)
qed

lemma focal_term_bounds:
  assumes "0 \<le> a" "0 \<le> y" "y \<le> 1"
  shows "0 \<le> focal_term a g x y" "focal_term a g x y \<le> a * bce_with_logits x y"
proof -
  let ?b = "bce_with_logits x y"
  have b: "0 \<le> ?b" using assms(2,3) by (rule bce_nonneg)
  note m = modulating_bounds [OF b, of g]
  show "0 \<le> focal_term a g x y"
    unfolding focal_term_def using assms(1) b m(1) by simp
  have "(1 - exp (- ?b)) ^ g * ?b \<le> 1 * ?b"
    using m(2) b by (rule mult_right_mono)
  then have "a * ((1 - exp (- ?b)) ^ g * ?b) \<le> a * ?b"
    using assms(1) by (simp add: mult_left_mono)
  then show "focal_term a g x y \<le> a * ?b"
    unfolding focal_term_def by (simp add: mult.assoc)
qed

text \<open>
  C7 (as amended). For a non-empty logits tensor and a target tensor of the same shape
  whose elements lie in \<open>[0, 1]\<close>, and a weight \<open>alpha \<ge> 0\<close> (the default is 0.25), every
  elementwise cross-entropy is non-negative, every modulating factor
  \<open>(1 - exp (- BCE)) ^ gamma\<close> lies in \<open>[0, 1]\<close>, and the focal loss lies between 0 and
  \<open>alpha\<close> times the mean cross-entropy.
\<close>

theorem focal_down_weights:
  assumes "shape inputs = shape targets" "wf inputs" "wf targets" "data inputs \<noteq> []"
    and "\<forall>y\<in>set (data targets). 0 \<le> y \<and> y \<le> 1"
    and "0 \<le> alpha self"
  shows "\<exists>v m. focal_forward self inputs targets = Inr (Fin v)
     \<and> BCEWithLogitsLoss_mean inputs targets = Inr (Fin m)
     \<and> 0 \<le> v \<and> v \<le> alpha self * m
     \<and> (\<forall>b\<in>set (map2 bce_with_logits (data inputs) (data targets)).
           0 \<le> b \<and> 0 \<le> (1 - exp (- b)) ^ gamma self \<and> (1 - exp (- b)) ^ gamma self \<le> 1)"
proof -
  let ?zs = "zip (data inputs) (data targets)"
  let ?n = "real (length ?zs)"
  let ?F = "map2 (focal_term (alpha self) (gamma self)) (data inputs) (data targets)"
  let ?B = "map2 bce_with_logits (data inputs) (data targets)"
  have len: "length (data targets) = length (data inputs)"
    using assms(1-3) by (simp add: wf_def)
  then have ne: "?zs \<noteq> []"
    using assms(4) by (cases "data inputs"; cases "data targets") auto
  then have n: "0 < ?n" by simp
  have y01: "0 \<le> y \<and> y \<le> 1" if "(x, y) \<in> set ?zs" for x y
    using assms(5) set_zip_rightD [OF that] by blast
  have lo: "0 \<le> sum_list ?F"
    by (rule sum_list_nonneg) (auto simp: focal_term_bounds(1) assms(6) y01)
  have "sum_list ?F \<le> sum_list (map (\<lambda>(x, y). alpha self * bce_with_logits x y) ?zs)"
    by (rule sum_list_mono) (auto simp: focal_term_bounds(2) assms(6) y01)
  also have "\<dots> = alpha self * sum_list ?B"
    by (simp add: sum_list_const_mult [symmetric] case_prod_unfold)
  finally have hi: "sum_list ?F \<le> alpha self * sum_list ?B" .
  have v: "focal_forward self inputs targets = Inr (Fin (sum_list ?F / ?n))"
    using ne by (simp add: focal_forward_eq [OF assms(1)] focal_spec_def Let_def)
  have m: "BCEWithLogitsLoss_mean inputs targets = Inr (Fin (sum_list ?B / ?n))"
    using ne assms(1)
    by (simp add: BCEWithLogitsLoss_mean_def BCEWithLogitsLoss_none_def tzip_def ebind_def
        mean_def)
  have "0 \<le> sum_list ?F / ?n"
    using lo n by simp
  moreover have "sum_list ?F / ?n \<le> alpha self * (sum_list ?B / ?n)"
    using hi n by (simp add: divide_right_mono)
  moreover have "0 \<le> b \<and> 0 \<le> (1 - exp (- b)) ^ gamma self \<and> (1 - exp (- b)) ^ gamma self \<le> 1"
    if "b \<in> set ?B" for b
  proof -
    from that obtain x y where "(x, y) \<in> set ?zs" "b = bce_with_logits x y" by auto
    then have "0 \<le> b" using y01 bce_nonneg by blast
    then show ?thesis using modulating_bounds by blast
  qed
  ultimately show ?thesis
    using v m by blast
qed

theorem focal_down_weights_witness:
  "wf \<lparr>shape = [1, 1, 1, 2], data = [0, 0 :: real]\<rparr>
   \<and> (\<exists>v m. focal_forward criterion \<lparr>shape = [1, 1, 1, 2], data = [0, 0]\<rparr>
          \<lparr>shape = [1, 1, 1, 2], data = [1, 0]\<rparr> = Inr (Fin v)
        \<and> BCEWithLogitsLoss_mean \<lparr>shape = [1, 1, 1, 2], data = [0, 0]\<rparr>
          \<lparr>shape = [1, 1, 1, 2], data = [1, 0]\<rparr> = Inr (Fin m)
        \<and> 0 \<le> v \<and> v \<le> alpha criterion * m)"
proof -
  let ?x = "\<lparr>shape = [1, 1, 1, 2], data = [0, 0 :: real]\<rparr>"
  let ?y = "\<lparr>shape = [1, 1, 1, 2], data = [1, 0 :: real]\<rparr>"
  have h: "shape ?x = shape ?y" "wf ?x" "wf ?y" "data ?x \<noteq> []"
    "\<forall>y\<in>set (data ?y). 0 \<le> y \<and> y \<le> 1" "0 \<le> alpha criterion"
    by (simp_all add: wf_def criterion_def FocalLoss_def)
  from focal_down_weights [OF h] h(2) show ?thesis by blast
qed

text \<open>
  A target outside \<open>[0, 1]\<close> makes the cross-entropy negative: for the logit 1 and the
  target 2 the loss of the criterion is below zero.
\<close>

theorem focal_negative_counterexample:
  "focal_forward criterion \<lparr>shape = [1], data = [1]\<rparr> \<lparr>shape = [1], data = [2]\<rparr>
     = Inr (Fin (focal_term (1 / 4) 2 1 2))
   \<and> focal_term (1 / 4) 2 1 2 < 0"
proof
  show "focal_forward criterion \<lparr>shape = [1], data = [1]\<rparr> \<lparr>shape = [1], data = [2]\<rparr>
     = Inr (Fin (focal_term (1 / 4) 2 1 2))"
    by (simp add: focal_forward_eq focal_spec_def criterion_def FocalLoss_def)
  have e: "1 + exp (- 1 :: real) < exp 1"
  proof -
    have "exp (- 1 :: real) < 1" by simp
    moreover have "(2::real) \<le> exp 1" using exp_ge_add_one_self [of "1::real"] by simp
    ultimately show ?thesis by linarith
  qed
  have p: "0 < 1 + exp (- 1 :: real)" by (simp add: add_pos_pos)
  have "1 / (1 + exp (- 1 :: real)) + exp (- 1) / (1 + exp (- 1)) = (1 + exp (- 1)) / (1 + exp (- 1))"
    by (simp only: add_divide_distrib)
  also have "\<dots> = 1" using p by simp
  finally have s1: "1 - sigmoid 1 = exp (- 1) * sigmoid 1"
    by (simp add: sigmoid_def)
  have "ln (1 - sigmoid 1) = - 1 + ln (sigmoid 1)"
    unfolding s1 using sigmoid_pos [of 1] by (simp add: ln_mult)
  moreover have "ln (sigmoid 1) = - ln (1 + exp (- 1))"
    unfolding sigmoid_def by (simp add: ln_div add_pos_pos)
  ultimately have b: "bce_with_logits 1 2 = ln (1 + exp (- 1)) - 1"
    by (simp add: bce_with_logits_def)
  have "ln (1 + exp (- 1 :: real)) < ln (exp 1)"
    using e by (subst ln_less_cancel_iff) (simp_all add: add_pos_pos)
  then have neg: "bce_with_logits 1 2 < 0"
    unfolding b by simp
  then have "1 - exp (- bce_with_logits 1 2) \<noteq> 0" by simp
  then have "0 < (1 - exp (- bce_with_logits 1 2))\<^sup>2" by simp
  then show "focal_term (1 / 4) 2 1 2 < 0"
    unfolding focal_term_def using neg by (simp add: mult_pos_neg)
qed


section \<open>Properties of the dataset\<close>




lemma fold_deterministic:
  assumes "\<And>t x g g'. t \<in> set ts \<Longrightarrow>
      apply_transform e t (x, g) = (fst (apply_transform e t (x, g')), g)"
  shows "fold (apply_transform e) ts (x, g) = (fst (fold (apply_transform e) ts (x, g')), g)"
  using assms
proof (induction ts arbitrary: x g g')
  case Nil
  show ?case by simp
next
  case (Cons t ts)
  have step: "apply_transform e t (x, g) = (fst (apply_transform e t (x, g')), g)"
    by (rule Cons.prems) simp
  have step': "apply_transform e t (x, g') = (fst (apply_transform e t (x, g')), g')"
    using Cons.prems [of t x g' g'] by simp
  have "fold (apply_transform e) (t # ts) (x, g)
      = fold (apply_transform e) ts (fst (apply_transform e t (x, g')), g)"
    by (simp add: step)
  also have "\<dots> = (fst (fold (apply_transform e) ts (fst (apply_transform e t (x, g')), g')), g)"
    by (rule Cons.IH) (simp add: Cons.prems)
  also have "\<dots> = (fst (fold (apply_transform e) (t # ts) (x, g')), g)"
    using step' by simp
  finally show ?case .
qed

lemma apply_deterministic:
  "\<not> is_random t \<Longrightarrow> apply_transform e t (x, g) = (fst (apply_transform e t (x, g')), g)"
proof (induction t arbitrary: x g g')
  case (Compose ts)
  have "apply_transform e t (y, h) = (fst (apply_transform e t (y, h')), h)"
    if "t \<in> set ts" for t y h h'
    using Compose.IH [OF that] Compose.prems that by (auto simp: list_ex_iff)
  then show ?case
    by (simp add: fold_deterministic)
qed simp_all

lemma apply_optional_deterministic:
  assumes "\<And>f. t = Some f \<Longrightarrow> \<not> is_random f"
  shows "apply_optional e t (x, g) = (fst (apply_optional e t (x, g')), g)"
proof (cases t)
  case None
  then show ?thesis by (simp add: apply_optional_def)
next
  case (Some f)
  then show ?thesis
    using apply_deterministic [of f e x g g'] assms by (simp add: apply_optional_def)
qed

lemma getitem_deterministic:
  assumes "\<And>f. image_transform self = Some f \<Longrightarrow> \<not> is_random f"
    and "\<And>f. mask_transform self = Some f \<Longrightarrow> \<not> is_random f"
  shows "getitem e self idx g = map_sum id (\<lambda>r. (fst r, g)) (getitem e self idx g')"
proof -
  have i: "apply_optional e (image_transform self) (x, h)
      = (fst (apply_optional e (image_transform self) (x, g')), h)" for x h
    using assms(1) by (rule apply_optional_deterministic)
  have m: "apply_optional e (mask_transform self) (x, h)
      = (fst (apply_optional e (mask_transform self) (x, g')), h)" for x h
    using assms(2) by (rule apply_optional_deterministic)
  define fi where "fi = (\<lambda>x. fst (apply_optional e (image_transform self) (x, g')))"
  define fm where "fm = (\<lambda>x. fst (apply_optional e (mask_transform self) (x, g')))"
  have fi: "apply_optional e (image_transform self) (x, h) = (fi x, h)" for x h
    unfolding fi_def by (rule i)
  have fm: "apply_optional e (mask_transform self) (x, h) = (fm x, h)" for x h
    unfolding fm_def by (rule m)
  show ?thesis
    unfolding getitem_def ebind_def Let_def
    by (simp add: fi fm split: sum.splits)
qed

text \<open>
  C10. Both datasets are built with the image pipeline (resize, to tensor, normalize)
  and the mask pipeline (resize, to tensor); neither contains a random transform, while
  \<open>data_augmentation\<close> does and is given to no dataset. So \<open>__getitem__\<close> does not
  depend on the state of the random generator and leaves it as it is: two calls with the
  same index and the same files return the same pair, or fail alike.
\<close>

theorem no_random_augmentation:
  assumes "train_dataset e = Inr self \<or> test_dataset e = Inr self"
  shows "image_transform self = Some image_transform_pipeline
     \<and> mask_transform self = Some mask_transform_pipeline
     \<and> \<not> is_random image_transform_pipeline
     \<and> \<not> is_random mask_transform_pipeline
     \<and> is_random data_augmentation
     \<and> (\<forall>idx g g'. map_sum id fst (getitem e self idx g) = map_sum id fst (getitem e self idx g'))
     \<and> (\<forall>idx g r. getitem e self idx g = Inr r \<longrightarrow> snd r = g)"
proof -
  have t: "image_transform self = Some image_transform_pipeline"
    "mask_transform self = Some mask_transform_pipeline"
    using assms
    by (auto simp: train_dataset_def test_dataset_def FloodDataset_def ebind_def
        split: sum.splits)
  have d: "\<not> is_random image_transform_pipeline" "\<not> is_random mask_transform_pipeline"
    by (simp_all add: image_transform_pipeline_def mask_transform_pipeline_def)
  have r: "is_random data_augmentation"
    by (simp add: data_augmentation_def)
  have g: "getitem e self idx g = map_sum id (\<lambda>r. (fst r, g)) (getitem e self idx g')"
    for idx g g'
    by (rule getitem_deterministic) (simp_all add: t d)
  have "map_sum id fst (getitem e self idx g) = map_sum id fst (getitem e self idx g')"
    for idx g g'
    by (subst g [of idx g g']) (cases "getitem e self idx g'"; simp)
  moreover have "snd r = g" if "getitem e self idx g = Inr r" for idx g r
    using g [of idx g g] that by (cases "getitem e self idx g") auto
  ultimately show ?thesis
    using t d r by blast
qed

theorem no_random_augmentation_witness:
  "train_dataset
     \<lparr>csv_files = [''/content/drive/MyDrive/DLCV Project/Flood-Detection-Project/train-metadata.csv''
          \<mapsto> [[''Image'', ''Mask''], [''0.jpg'', ''0.png'']]],
      image_files = (\<lambda>name. Some (length name)),
      convert = (\<lambda>m x. x + length m), deterministic_op = (\<lambda>t x. 2 * x),
      random_op = (\<lambda>t (g::nat) x. (x + g, g + 1))\<rparr>
     = Inr \<lparr>img_labels = [[''0.jpg'', ''0.png'']],
          img_dir = ''/content/drive/MyDrive/DLCV Project/Flood-Detection-Project/Image/Train-images'',
          mask_dir = ''/content/drive/MyDrive/DLCV Project/Flood-Detection-Project/Mask/Train-Masks'',
          image_transform = Some image_transform_pipeline,
          mask_transform = Some mask_transform_pipeline\<rparr>
   \<and> map_sum id fst (getitem
       \<lparr>csv_files = [''/content/drive/MyDrive/DLCV Project/Flood-Detection-Project/train-metadata.csv''
          \<mapsto> [[''Image'', ''Mask''], [''0.jpg'', ''0.png'']]],
        image_files = (\<lambda>name. Some (length name)),
        convert = (\<lambda>m x. x + length m), deterministic_op = (\<lambda>t x. 2 * x),
        random_op = (\<lambda>t (g::nat) x. (x + g, g + 1))\<rparr>
       \<lparr>img_labels = [[''0.jpg'', ''0.png'']],
        img_dir = ''/content/drive/MyDrive/DLCV Project/Flood-Detection-Project/Image/Train-images'',
        mask_dir = ''/content/drive/MyDrive/DLCV Project/Flood-Detection-Project/Mask/Train-Masks'',
        image_transform = Some image_transform_pipeline,
        mask_transform = Some mask_transform_pipeline\<rparr> 0 0)
     = map_sum id fst (getitem
       \<lparr>csv_files = [''/content/drive/MyDrive/DLCV Project/Flood-Detection-Project/train-metadata.csv''
          \<mapsto> [[''Image'', ''Mask''], [''0.jpg'', ''0.png'']]],
        image_files = (\<lambda>name. Some (length name)),
        convert = (\<lambda>m x. x + length m), deterministic_op = (\<lambda>t x. 2 * x),
        random_op = (\<lambda>t (g::nat) x. (x + g, g + 1))\<rparr>
       \<lparr>img_labels = [[''0.jpg'', ''0.png'']],
        img_dir = ''/content/drive/MyDrive/DLCV Project/Flood-Detection-Project/Image/Train-images'',
        mask_dir = ''/content/drive/MyDrive/DLCV Project/Flood-Detection-Project/Mask/Train-Masks'',
        image_transform = Some image_transform_pipeline,
        mask_transform = Some mask_transform_pipeline\<rparr> 0 5)"
  (is "train_dataset ?E = Inr ?D \<and> map_sum id fst (getitem ?E ?D 0 0) = map_sum id fst (getitem ?E ?D 0 5)")
proof -
  have t: "train_dataset ?E = Inr ?D"
    by (simp add: train_dataset_def FloodDataset_def read_csv_def ebind_def)
  then have "train_dataset ?E = Inr ?D \<or> test_dataset ?E = Inr ?D" ..
  from no_random_augmentation [OF this]
  have "map_sum id fst (getitem ?E ?D 0 0) = map_sum id fst (getitem ?E ?D 0 5)"
    by blast
  with t show ?thesis ..
qed


section \<open>Properties of the training loop\<close>








section \<open>The reported metric\<close>












end
